theory Spec2Isabelle
  imports Complex_Main "HOL-Library.Word" "HOL-Library.Multiset" "HOL-Library.Sublist"
begin

unbundle bit_operations_syntax

section \<open>Python values shared by the scripts\<close>

text \<open>
  A decoded JSON document, as \<open>json.load\<close> and \<open>response.json()\<close> return it. A Python
  dict keeps insertion order, so it is an association list (keys distinct in every
  value a decoder produces). JSON numbers are integers here: the fields the scripts
  compute with (\<open>size\<close>, \<open>stars\<close>, \<open>forks\<close>, counts) are integers in the API.
\<close>

datatype json =
    JNull
  | JBool bool
  | JInt int
  | JStr string
  | JList "json list"
  | JDict "(string \<times> json) list"

text \<open>
  The exceptions the scripts can meet. \<open>Timeout\<close> is a subclass of
  \<open>requests.exceptions.RequestException\<close>; \<open>KeyboardInterrupt\<close> and \<open>SystemExit\<close> are
  not subclasses of \<open>Exception\<close>, every other one is. The string is \<open>str(e)\<close>.
\<close>

datatype exc =
    Timeout string
  | RequestException string
  | KeyError string
  | TypeError string
  | AttributeError string
  | ValueError string
  | OSError string
  | EOFError
  | KeyboardInterrupt
  | SystemExit nat

fun is_RequestException :: "exc \<Rightarrow> bool" where
  "is_RequestException (Timeout _) = True"
| "is_RequestException (RequestException _) = True"
| "is_RequestException _ = False"

fun is_Exception :: "exc \<Rightarrow> bool" where
  "is_Exception KeyboardInterrupt = False"
| "is_Exception (SystemExit _) = False"
| "is_Exception _ = True"

text \<open>Python truth value of a decoded JSON value (\<open>if x:\<close>, \<open>not x\<close>).\<close>

fun truthy :: "json \<Rightarrow> bool" where
  "truthy JNull = False"
| "truthy (JBool b) = b"
| "truthy (JInt n) = (n \<noteq> 0)"
| "truthy (JStr s) = (s \<noteq> [])"
| "truthy (JList xs) = (xs \<noteq> [])"
| "truthy (JDict kvs) = (kvs \<noteq> [])"

text \<open>Truth value of an optional string (\<open>None\<close> and \<open>""\<close> are false).\<close>

fun truthy_str :: "string option \<Rightarrow> bool" where
  "truthy_str None = False"
| "truthy_str (Some s) = (s \<noteq> [])"

text \<open>\<open>d.get(k)\<close>: \<open>None\<close> for a missing key, \<open>AttributeError\<close> when \<open>d\<close> is no dict.\<close>

fun py_get :: "json \<Rightarrow> string \<Rightarrow> exc + json" where
  "py_get (JDict kvs) k = Inr (case map_of kvs k of None \<Rightarrow> JNull | Some v \<Rightarrow> v)"
| "py_get _ k = Inl (AttributeError ''get'')"

text \<open>\<open>d.get(k, default)\<close>.\<close>

fun py_get_default :: "json \<Rightarrow> string \<Rightarrow> json \<Rightarrow> exc + json" where
  "py_get_default (JDict kvs) k d = Inr (case map_of kvs k of None \<Rightarrow> d | Some v \<Rightarrow> v)"
| "py_get_default _ k d = Inl (AttributeError ''get'')"

text \<open>
  \<open>d[k]\<close> with a string key: \<open>KeyError\<close> for a missing key of a dict, \<open>TypeError\<close> for
  every other JSON value (a list or a string wants an integer index, the rest is not
  subscriptable).
\<close>

fun py_item :: "json \<Rightarrow> string \<Rightarrow> exc + json" where
  "py_item (JDict kvs) k = (case map_of kvs k of None \<Rightarrow> Inl (KeyError k) | Some v \<Rightarrow> Inr v)"
| "py_item _ k = Inl (TypeError ''subscript'')"

section \<open>Imgur uploader (uploading-to-imgur/scripts/upload.py)\<close>

text \<open>The error strings of \<open>upload_image_to_imgur\<close>, one constructor per message.\<close>

datatype upload_error =
    FileNotFound                  \<comment> \<open>"File not found"\<close>
  | InvalidImageFormat string     \<comment> \<open>"Invalid image format: {file_ext}"\<close>
  | NoAuthentication              \<comment> \<open>"No authentication provided (need client_id or access_token)"\<close>
  | ApiSuccessFalse               \<comment> \<open>"Imgur API returned success=false"\<close>
  | HttpError int string          \<comment> \<open>"HTTP {status_code}: {text}"\<close>
  | RequestTimeout                \<comment> \<open>"Request timeout"\<close>
  | NetworkError string           \<comment> \<open>"Network error: {str(e)}"\<close>
  | UnexpectedError exc           \<comment> \<open>"Unexpected error: {str(e)}"\<close>

record upload_result =
  original_path :: string
  filename :: string
  success :: bool
  error :: "upload_error option"
  upload_type :: string
  imgur_data :: "(string \<times> json) list option"

record http_response =
  status_code :: int
  response_text :: string
  json_of :: "exc + json"  \<comment> \<open>what \<open>response.json()\<close> returns or raises\<close>

text \<open>
  What the uploader asks of its surroundings: the file system, \<open>pathlib\<close>, the HTTP
  library and \<open>str()\<close>. \<open>read_b64\<close> is \<open>base64.b64encode(open(p, "rb").read()).decode()\<close>;
  \<open>post_image\<close> is \<open>requests.post\<close> to the upload URL with the \<open>Authorization\<close> header
  and the form payload.
\<close>

record upload_env =
  path_exists :: "string \<Rightarrow> bool"
  suffix_lower :: "string \<Rightarrow> string"
  read_b64 :: "string \<Rightarrow> exc + string"
  post_image :: "string \<Rightarrow> (string \<times> string) list \<Rightarrow> exc + http_response"
  str_of :: "json \<Rightarrow> string"

definition valid_extensions :: "string list" where
  "valid_extensions = [''.jpg'', ''.jpeg'', ''.png'', ''.gif'', ''.bmp'', ''.webp'', ''.tiff'']"

text \<open>\<open>os.path.basename\<close>: what follows the last slash.\<close>

definition basename :: "string \<Rightarrow> string" where
  "basename p = rev (takeWhile (\<lambda>c. c \<noteq> CHR ''/'') (rev p))"

definition auth_header :: "string option \<Rightarrow> string option \<Rightarrow> string option" where
  "auth_header client_id access_token =
     (if truthy_str access_token then Some (''Bearer '' @ the access_token)
      else if truthy_str client_id then Some (''Client-ID '' @ the client_id)
      else None)"

definition imgur_fields :: "string list" where
  "imgur_fields = [''id'', ''link'', ''deletehash'', ''datetime'', ''type'', ''width'', ''height'',
     ''size'', ''bandwidth'', ''views'', ''title'', ''description'']"

text \<open>The \<open>imgur_data\<close> dict: every field is \<open>data.get(field)\<close>, which needs a dict.\<close>

definition extract_imgur_data :: "upload_env \<Rightarrow> json \<Rightarrow> exc + (string \<times> json) list" where
  "extract_imgur_data w data =
     (case data of
        JDict kvs \<Rightarrow>
          (let field = (\<lambda>k. case map_of kvs k of None \<Rightarrow> JNull | Some v \<Rightarrow> v) in
           Inr (map (\<lambda>k. (k, field k)) imgur_fields @
                [(''delete_link'',
                  if truthy (field ''deletehash'')
                  then JStr (''https://imgur.com/delete/'' @ str_of w (field ''deletehash''))
                  else JNull)]))
      | _ \<Rightarrow> Inl (AttributeError ''get''))"

text \<open>
  The body of the \<open>try\<close> block, innermost part first. Each part returns the result
  dict as it stands when the block is left, and the exception that left it, if any:
  \<open>result["success"] = True\<close> is assigned before \<open>imgur_data\<close> is built, and stays when
  building it raises.
\<close>

definition upload_success :: "upload_env \<Rightarrow> upload_result \<Rightarrow> json \<Rightarrow> upload_result \<times> exc option" where
  "upload_success w result response_data =
     (case py_get_default response_data ''data'' (JDict []) of
        Inl e \<Rightarrow> (result, Some e)
      | Inr data \<Rightarrow>
          (case extract_imgur_data w data of
             Inl e \<Rightarrow> (result\<lparr>success := True\<rparr>, Some e)
           | Inr d \<Rightarrow> (result\<lparr>success := True, imgur_data := Some d\<rparr>, None)))"

definition upload_response_data ::
  "upload_env \<Rightarrow> upload_result \<Rightarrow> json \<Rightarrow> upload_result \<times> exc option" where
  "upload_response_data w result response_data =
     (case py_get response_data ''success'' of
        Inl e \<Rightarrow> (result, Some e)
      | Inr ok \<Rightarrow>
          if truthy ok then upload_success w result response_data
          else (result\<lparr>error := Some ApiSuccessFalse\<rparr>, None))"

definition upload_response ::
  "upload_env \<Rightarrow> upload_result \<Rightarrow> http_response \<Rightarrow> upload_result \<times> exc option" where
  "upload_response w result response =
     (if status_code response = 200 then
        (case json_of response of
           Inl e \<Rightarrow> (result, Some e)
         | Inr response_data \<Rightarrow> upload_response_data w result response_data)
      else (result\<lparr>error := Some (HttpError (status_code response) (response_text response))\<rparr>,
            None))"

definition upload_payload :: "string \<Rightarrow> string option \<Rightarrow> string option \<Rightarrow> (string \<times> string) list" where
  "upload_payload image_data title description =
     [(''image'', image_data), (''type'', ''base64'')]
     @ (if truthy_str title then [(''title'', the title)] else [])
     @ (if truthy_str description then [(''description'', the description)] else [])"

definition upload_try ::
  "upload_env \<Rightarrow> upload_result \<Rightarrow> string \<Rightarrow> string option \<Rightarrow> string option \<Rightarrow>
   string option \<Rightarrow> string option \<Rightarrow> upload_result \<times> exc option" where
  "upload_try w result image_path client_id access_token title description =
     (case read_b64 w image_path of
        Inl e \<Rightarrow> (result, Some e)
      | Inr image_data \<Rightarrow>
          (case auth_header client_id access_token of
             None \<Rightarrow> (result\<lparr>error := Some NoAuthentication\<rparr>, None)
           | Some authorization \<Rightarrow>
               (case post_image w authorization (upload_payload image_data title description) of
                  Inl e \<Rightarrow> (result, Some e)
                | Inr response \<Rightarrow> upload_response w result response)))"

text \<open>The three \<open>except\<close> clauses, in the source's order; anything else propagates.\<close>

definition upload_except :: "upload_result \<Rightarrow> exc \<Rightarrow> exc + upload_result" where
  "upload_except result e =
     (case e of
        Timeout _ \<Rightarrow> Inr (result\<lparr>error := Some RequestTimeout\<rparr>)
      | RequestException m \<Rightarrow> Inr (result\<lparr>error := Some (NetworkError m)\<rparr>)
      | _ \<Rightarrow> if is_Exception e then Inr (result\<lparr>error := Some (UnexpectedError e)\<rparr>) else Inl e)"

definition upload_image_to_imgur ::
  "upload_env \<Rightarrow> string \<Rightarrow> string option \<Rightarrow> string option \<Rightarrow> string option \<Rightarrow> string option \<Rightarrow>
   exc + upload_result" where
  "upload_image_to_imgur w image_path client_id access_token title description =
     (let result = \<lparr>original_path = image_path, filename = basename image_path,
                     success = False, error = None,
                     upload_type = (if truthy_str access_token then ''authenticated'' else ''anonymous''),
                     imgur_data = None\<rparr>
      in if \<not> path_exists w image_path then Inr (result\<lparr>error := Some FileNotFound\<rparr>)
         else let file_ext = suffix_lower w image_path
              in if file_ext \<notin> set valid_extensions
                 then Inr (result\<lparr>error := Some (InvalidImageFormat file_ext)\<rparr>)
                 else (case upload_try w result image_path client_id access_token title description of
                         (result', None) \<Rightarrow> Inr result'
                       | (result', Some e) \<Rightarrow> upload_except result' e))"

record upload_summary =
  total :: nat
  successful :: nat
  failed :: nat
  uploads :: "upload_result list"

text \<open>The \<open>for\<close> loop of \<open>upload_multiple_images\<close>, over the paths still to do.\<close>

fun upload_loop ::
  "upload_env \<Rightarrow> string list \<Rightarrow> string option \<Rightarrow> string option \<Rightarrow> upload_summary \<Rightarrow>
   exc + upload_summary" where
  "upload_loop w [] client_id access_token results = Inr results"
| "upload_loop w (image_path # rest) client_id access_token results =
     (case upload_image_to_imgur w image_path client_id access_token None None of
        Inl e \<Rightarrow> Inl e
      | Inr result \<Rightarrow>
          (let results1 = results\<lparr>uploads := uploads results @ [result]\<rparr>
           in upload_loop w rest client_id access_token
                (if success result then results1\<lparr>successful := successful results1 + 1\<rparr>
                 else results1\<lparr>failed := failed results1 + 1\<rparr>)))"

definition upload_multiple_images ::
  "upload_env \<Rightarrow> string list \<Rightarrow> string option \<Rightarrow> string option \<Rightarrow> exc + upload_summary" where
  "upload_multiple_images w image_paths client_id access_token =
     upload_loop w image_paths client_id access_token
       \<lparr>total = length image_paths, successful = 0, failed = 0, uploads = []\<rparr>"

text \<open>An example surrounding: two files exist, one of them an image; the API accepts.\<close>

definition upload_env_example :: upload_env where
  "upload_env_example =
     \<lparr>path_exists = (\<lambda>p. p = ''a.png'' \<or> p = ''b.txt''),
      suffix_lower = (\<lambda>p. if p = ''a.png'' then ''.png'' else ''.txt''),
      read_b64 = (\<lambda>p. Inr ''aGk=''),
      post_image = (\<lambda>h pl. Inr \<lparr>status_code = 200, response_text = ''{}'',
         json_of = Inr (JDict [(''success'', JBool True),
                               (''data'', JDict [(''id'', JStr ''x1''), (''deletehash'', JStr ''dh'')])])\<rparr>),
      str_of = (\<lambda>j. case j of JStr s \<Rightarrow> s | _ \<Rightarrow> [])\<rparr>"

section \<open>GitHub exporter (fetching-github-user-data/scripts/fetch.py)\<close>

text \<open>
  A printed or recorded message: the name of its format string and the values
  interpolated into it (the texts themselves are not ASCII).
\<close>

datatype message = Message string "json list"

text \<open>
  The language statistics that \<open>fetch_language_stats\<close> computes and saves. A language
  is whatever value the \<open>language\<close> field holds; the percentage is a float in the
  source and an exact rational here.
\<close>

record language_entry =
  repo_count :: int
  total_size_kb :: int
  percentage :: rat

record language_report =
  languages :: "(json \<times> language_entry) list"
  total_size :: int
  language_count :: nat

text \<open>What a run does to the outside, in order.\<close>

datatype event =
    Stdout message
  | Stderr message
  | HttpGet string "(string \<times> json) list option"  \<comment> \<open>endpoint and query parameters\<close>
  | HttpPost string                                   \<comment> \<open>the GraphQL query\<close>
  | Saved "string list" json                          \<comment> \<open>path below the output directory, data\<close>
  | SavedLanguages "string list" language_report      \<comment> \<open>the same for the language statistics\<close>

record gh_response =
  gh_status :: int
  gh_json :: "exc + json"         \<comment> \<open>what \<open>response.json()\<close> returns or raises\<close>
  gh_link :: "string option"      \<comment> \<open>the \<open>Link\<close> header, if present\<close>

text \<open>
  The surroundings of the exporter: the HTTP session, the file system below the
  output directory, the clock and \<open>str()\<close>.
\<close>

record gh_env =
  session_get :: "string \<Rightarrow> (string \<times> json) list option \<Rightarrow> exc + gh_response"
  session_post :: "string \<Rightarrow> exc + gh_response"
  mkdir_output :: "exc option"
  write_json :: "string list \<Rightarrow> exc option"
  repos_details :: "(exc + json) list option"
  repos_list :: "(exc + json) option"
  now_iso :: string
  gh_str :: "json \<Rightarrow> string"

text \<open>The fetcher object: its fields, \<open>self.stats\<close> flattened, and the events so far.\<close>

record fetcher =
  username :: string
  token :: "string option"
  output_dir :: string
  requests_made :: nat
  data_fetched :: "(string \<times> json) list"
  errors :: "message list"
  events :: "event list"

text \<open>\<open>d[k] = v\<close> on an insertion-ordered dict.\<close>

fun dict_set :: "(string \<times> 'v) list \<Rightarrow> string \<Rightarrow> 'v \<Rightarrow> (string \<times> 'v) list" where
  "dict_set [] k v = [(k, v)]"
| "dict_set ((k', v') # kvs) k v = (if k' = k then (k, v) # kvs else (k', v') # dict_set kvs k v)"

text \<open>\<open>str(e)\<close>.\<close>

fun exc_str :: "exc \<Rightarrow> string" where
  "exc_str (Timeout m) = m"
| "exc_str (RequestException m) = m"
| "exc_str (KeyError k) = [CHR 0x27] @ k @ [CHR 0x27]"
| "exc_str (TypeError m) = m"
| "exc_str (AttributeError m) = m"
| "exc_str (ValueError m) = m"
| "exc_str (OSError m) = m"
| "exc_str EOFError = []"
| "exc_str KeyboardInterrupt = []"
| "exc_str (SystemExit n) = []"

definition emit :: "event \<Rightarrow> fetcher \<Rightarrow> fetcher" where
  "emit ev s = s\<lparr>events := events s @ [ev]\<rparr>"

text \<open>\<open>response.raise_for_status()\<close>: an \<open>HTTPError\<close> for a 4xx or 5xx status.\<close>

definition raise_for_status :: "gh_response \<Rightarrow> exc + gh_response" where
  "raise_for_status r =
     (if 400 \<le> gh_status r \<and> gh_status r < 600 then Inl (RequestException ''HTTPError'')
      else Inr r)"

definition session_get_checked ::
  "gh_env \<Rightarrow> string \<Rightarrow> (string \<times> json) list option \<Rightarrow> exc + gh_response" where
  "session_get_checked w endpoint params =
     (case session_get w endpoint params of Inl e \<Rightarrow> Inl e | Inr r \<Rightarrow> raise_for_status r)"

text \<open>
  \<open>_make_request\<close>: count the request, send it; a \<open>RequestException\<close> is recorded in
  the statistics, printed and raised again, any other exception just passes.
\<close>

definition make_request ::
  "gh_env \<Rightarrow> string \<Rightarrow> (string \<times> json) list option \<Rightarrow> fetcher \<Rightarrow> (exc + gh_response) \<times> fetcher" where
  "make_request w endpoint params s =
     (let s1 = emit (HttpGet endpoint params) (s\<lparr>requests_made := requests_made s + 1\<rparr>)
      in case session_get_checked w endpoint params of
           Inr response \<Rightarrow> (Inr response, s1)
         | Inl e \<Rightarrow>
             if is_RequestException e then
               (let error_msg = Message ''request_failed'' [JStr endpoint, JStr (exc_str e)]
                in (Inl e, emit (Stderr error_msg) (s1\<lparr>errors := errors s1 @ [error_msg]\<rparr>)))
             else (Inl e, s1))"

text \<open>
  \<open>list.extend(data)\<close> iterates its argument: a list gives its elements, a dict its
  keys, a string its characters; \<open>True\<close> and a number are not iterable.
\<close>

fun py_iter :: "json \<Rightarrow> exc + json list" where
  "py_iter (JList xs) = Inr xs"
| "py_iter (JDict kvs) = Inr (map (\<lambda>kv. JStr (fst kv)) kvs)"
| "py_iter (JStr s) = Inr (map (\<lambda>c. JStr [c]) s)"
| "py_iter _ = Inl (TypeError ''not iterable'')"

text \<open>\<open>needle in haystack\<close> for strings.\<close>

fun str_contains :: "string \<Rightarrow> string \<Rightarrow> bool" where
  "str_contains needle [] = (needle = [])"
| "str_contains needle (c # cs) = (prefix needle (c # cs) \<or> str_contains needle cs)"

definition rel_next :: string where
  "rel_next = ''rel='' @ [CHR 0x22] @ ''next'' @ [CHR 0x22]"

definition has_next :: "gh_response \<Rightarrow> bool" where
  "has_next response =
     str_contains rel_next (case gh_link response of None \<Rightarrow> [] | Some l \<Rightarrow> l)"

text \<open>How one turn of the \<open>while True\<close> loop ends.\<close>

datatype 'a loop_step = Continue 'a | Break 'a | Raised exc

text \<open>
  The \<open>try\<close> block of one turn, given the response: decode, stop on a false value,
  extend, look for the next link.
\<close>

definition page_body :: "gh_response \<Rightarrow> json list \<Rightarrow> json list loop_step" where
  "page_body response all_data =
     (case gh_json response of
        Inl e \<Rightarrow> Raised e
      | Inr data \<Rightarrow>
          if \<not> truthy data then Break all_data
          else (case py_iter data of
                  Inl e \<Rightarrow> Raised e
                | Inr items \<Rightarrow>
                    if \<not> has_next response then Break (all_data @ items)
                    else Continue (all_data @ items)))"

text \<open>
  One turn of the loop for page \<open>page\<close>: \<open>except Exception\<close> prints and breaks with
  what was accumulated before the turn; other exceptions leave the function.
\<close>

definition fetch_page ::
  "gh_env \<Rightarrow> string \<Rightarrow> (string \<times> json) list \<Rightarrow> nat \<Rightarrow> json list \<Rightarrow> fetcher \<Rightarrow>
   json list loop_step \<times> fetcher" where
  "fetch_page w endpoint params page all_data s =
     (let s0 = emit (Stdout (Message ''fetching_page'' [JInt (int page)])) s
      in case make_request w endpoint (Some params) s0 of
           (Inl e, s1) \<Rightarrow>
             if is_Exception e
             then (Break all_data,
                   emit (Stderr (Message ''page_error'' [JInt (int page), JStr (exc_str e)])) s1)
             else (Raised e, s1)
         | (Inr response, s1) \<Rightarrow>
             (case page_body response all_data of
                Raised e \<Rightarrow>
                  if is_Exception e
                  then (Break all_data,
                        emit (Stderr (Message ''page_error'' [JInt (int page), JStr (exc_str e)])) s1)
                  else (Raised e, s1)
              | step \<Rightarrow> (step, s1)))"

text \<open>
  The \<open>while True\<close> loop. It need not end (a server can go on naming a next page), so
  the result is optional: \<open>None\<close> stands for a loop that never returns.
\<close>

partial_function (option) fetch_pages ::
  "gh_env \<Rightarrow> string \<Rightarrow> (string \<times> json) list \<Rightarrow> nat \<Rightarrow> json list \<Rightarrow> fetcher \<Rightarrow>
   ((exc + json list) \<times> fetcher) option" where
  "fetch_pages w endpoint params page all_data s =
     (let params1 = dict_set params ''page'' (JInt (int page))
      in case fetch_page w endpoint params1 page all_data s of
           (Continue all_data1, s1) \<Rightarrow> fetch_pages w endpoint params1 (page + 1) all_data1 s1
         | (Break all_data1, s1) \<Rightarrow> Some (Inr all_data1, s1)
         | (Raised e, s1) \<Rightarrow> Some (Inl e, s1))"

definition fetch_paginated_data ::
  "gh_env \<Rightarrow> string \<Rightarrow> (string \<times> json) list option \<Rightarrow> fetcher \<Rightarrow>
   ((exc + json list) \<times> fetcher) option" where
  "fetch_paginated_data w endpoint params s =
     (let per_page = 100;
          params0 = (case params of None \<Rightarrow> [] | Some ps \<Rightarrow> ps);
          params1 = dict_set params0 ''per_page'' (JInt per_page)
      in fetch_pages w endpoint params1 1 [] s)"

text \<open>The query parameters of the request for page \<open>k\<close>.\<close>

definition page_params :: "(string \<times> json) list option \<Rightarrow> nat \<Rightarrow> (string \<times> json) list" where
  "page_params params k =
     dict_set (dict_set (case params of None \<Rightarrow> [] | Some ps \<Rightarrow> ps) ''per_page'' (JInt 100))
       ''page'' (JInt (int k))"

text \<open>
  The server answers a request with a success status, a JSON array of \<open>items\<close>, and a
  \<open>Link\<close> header that names a next page exactly when \<open>nxt\<close> holds.
\<close>

definition serves_page ::
  "gh_env \<Rightarrow> string \<Rightarrow> (string \<times> json) list \<Rightarrow> json list \<Rightarrow> bool \<Rightarrow> bool" where
  "serves_page w endpoint ps items nxt =
     (case session_get w endpoint (Some ps) of
        Inl e \<Rightarrow> False
      | Inr r \<Rightarrow> \<not> (400 \<le> gh_status r \<and> gh_status r < 600) \<and> gh_json r = Inr (JList items) \<and>
                 has_next r = nxt)"

text \<open>The request, or the decoding of its body, raises \<open>e\<close>.\<close>

definition page_raises :: "gh_env \<Rightarrow> string \<Rightarrow> (string \<times> json) list \<Rightarrow> exc \<Rightarrow> bool" where
  "page_raises w endpoint ps e =
     (case session_get_checked w endpoint (Some ps) of
        Inl e' \<Rightarrow> e' = e
      | Inr r \<Rightarrow> gh_json r = Inl e)"

text \<open>The state after the request for one page was sent and answered.\<close>

definition requested :: "string \<Rightarrow> (string \<times> json) list \<Rightarrow> nat \<Rightarrow> fetcher \<Rightarrow> fetcher" where
  "requested endpoint ps page s =
     emit (HttpGet endpoint (Some ps))
       ((emit (Stdout (Message ''fetching_page'' [JInt (int page)])) s)
          \<lparr>requests_made := requests_made s + 1\<rparr>)"


text \<open>The GET requests among the events, in order.\<close>

fun gets_of :: "event list \<Rightarrow> (string \<times> (string \<times> json) list option) list" where
  "gets_of [] = []"
| "gets_of (HttpGet endpoint ps # evs) = (endpoint, ps) # gets_of evs"
| "gets_of (_ # evs) = gets_of evs"



definition link_next :: string where
  "link_next = ''<https://api.github.com/next>; '' @ rel_next"

text \<open>An example server: one resource of 101 items, served in pages of \<open>per_page\<close>.\<close>

definition items_example :: "json list" where
  "items_example = map (\<lambda>i. JInt (int i)) [0..<101]"

definition paged_get :: "json list \<Rightarrow> string \<Rightarrow> (string \<times> json) list option \<Rightarrow> exc + gh_response" where
  "paged_get xs endpoint params =
     (case params of
        None \<Rightarrow> Inl (RequestException ''no page'')
      | Some ps \<Rightarrow>
          (case (map_of ps ''page'', map_of ps ''per_page'') of
             (Some (JInt k), Some (JInt n)) \<Rightarrow>
               Inr \<lparr>gh_status = 200,
                    gh_json = Inr (JList (take (nat n) (drop ((nat k - 1) * nat n) xs))),
                    gh_link = (if nat k * nat n < length xs then Some link_next else None)\<rparr>
           | _ \<Rightarrow> Inl (RequestException ''no page'')))"

definition gh_env_example :: gh_env where
  "gh_env_example =
     \<lparr>session_get = paged_get items_example,
      session_post = (\<lambda>q. Inl (RequestException ''offline'')),
      mkdir_output = None,
      write_json = (\<lambda>p. None),
      repos_details = None,
      repos_list = None,
      now_iso = ''2024-01-01T00:00:00'',
      gh_str = (\<lambda>j. case j of JStr s \<Rightarrow> s | _ \<Rightarrow> [])\<rparr>"

text \<open>An example server whose second page times out.\<close>

definition failing_get :: "string \<Rightarrow> (string \<times> json) list option \<Rightarrow> exc + gh_response" where
  "failing_get endpoint params =
     (case params of
        None \<Rightarrow> Inl (Timeout ''timed out'')
      | Some ps \<Rightarrow>
          if map_of ps ''page'' = Some (JInt 1)
          then Inr \<lparr>gh_status = 200, gh_json = Inr (JList [JStr ''a'', JStr ''b'']),
                    gh_link = Some link_next\<rparr>
          else Inl (Timeout ''timed out''))"

definition fetcher_example :: fetcher where
  "fetcher_example =
     \<lparr>username = ''octocat'', token = None, output_dir = ''github_user_data/octocat'',
      requests_made = 0, data_fetched = [],
      errors = [], events = []\<rparr>"

subsection \<open>Saving and the single fetches\<close>

definition say :: "string \<Rightarrow> json list \<Rightarrow> fetcher \<Rightarrow> fetcher" where
  "say fmt args s = emit (Stdout (Message fmt args)) s"

definition say_err :: "string \<Rightarrow> json list \<Rightarrow> fetcher \<Rightarrow> fetcher" where
  "say_err fmt args s = emit (Stderr (Message fmt args)) s"

text \<open>\<open>self.stats["data_fetched"][k] = v\<close>.\<close>

definition set_fetched :: "string \<Rightarrow> json \<Rightarrow> fetcher \<Rightarrow> fetcher" where
  "set_fetched k v s = s\<lparr>data_fetched := dict_set (data_fetched s) k v\<rparr>"

text \<open>
  A statement of a fetch method either completes (\<open>None\<close>) or raises; either way the
  fetcher is left in some state. \<open>and_then\<close> runs the next statement after one that
  completed; \<open>catch_exception\<close> is \<open>except Exception as e\<close>, which lets
  \<open>KeyboardInterrupt\<close> and \<open>SystemExit\<close> pass.
\<close>

definition and_then ::
  "exc option \<times> fetcher \<Rightarrow> (fetcher \<Rightarrow> exc option \<times> fetcher) \<Rightarrow> exc option \<times> fetcher" where
  "and_then r f = (case r of (Some e, s) \<Rightarrow> (Some e, s) | (None, s) \<Rightarrow> f s)"

definition catch_exception ::
  "exc option \<times> fetcher \<Rightarrow> (exc \<Rightarrow> fetcher \<Rightarrow> exc option \<times> fetcher) \<Rightarrow> exc option \<times> fetcher" where
  "catch_exception r handler =
     (case r of
        (Some e, s) \<Rightarrow> if is_Exception e then handler e s else (Some e, s)
      | (None, s) \<Rightarrow> (None, s))"

definition bind_exc :: "exc + 'a \<Rightarrow> ('a \<Rightarrow> exc + 'b) \<Rightarrow> exc + 'b" where
  "bind_exc r f = (case r of Inl e \<Rightarrow> Inl e | Inr x \<Rightarrow> f x)"

text \<open>\<open>_save_json\<close>: create the parent directory, write the file, print where it went.\<close>

definition save_json :: "gh_env \<Rightarrow> json \<Rightarrow> string list \<Rightarrow> fetcher \<Rightarrow> exc option \<times> fetcher" where
  "save_json w data filepath s =
     (case write_json w filepath of
        Some e \<Rightarrow> (Some e, s)
      | None \<Rightarrow> (None, say ''saved_to'' [JList (map JStr filepath)] (emit (Saved filepath data) s)))"

text \<open>A list comprehension \<open>[f(x) for x in xs]\<close>: the first exception ends it.\<close>

fun list_comp :: "(json \<Rightarrow> exc + json) \<Rightarrow> json list \<Rightarrow> exc + json list" where
  "list_comp f [] = Inr []"
| "list_comp f (x # xs) =
     (case f x of
        Inl e \<Rightarrow> Inl e
      | Inr y \<Rightarrow> (case list_comp f xs of Inl e \<Rightarrow> Inl e | Inr ys \<Rightarrow> Inr (y # ys)))"

text \<open>A dict display \<open>{k1: e1, k2: e2, ...}\<close>: the entries are evaluated in order.\<close>

fun build_dict :: "(string \<times> (exc + json)) list \<Rightarrow> exc + (string \<times> json) list" where
  "build_dict [] = Inr []"
| "build_dict ((k, Inl e) # rest) = Inl e"
| "build_dict ((k, Inr v) # rest) =
     (case build_dict rest of Inl e \<Rightarrow> Inl e | Inr kvs \<Rightarrow> Inr ((k, v) # kvs))"

definition dict_display :: "(string \<times> (exc + json)) list \<Rightarrow> exc + json" where
  "dict_display entries = (case build_dict entries of Inl e \<Rightarrow> Inl e | Inr kvs \<Rightarrow> Inr (JDict kvs))"

text \<open>\<open>d.keys()\<close> as a list.\<close>

fun py_keys :: "json \<Rightarrow> exc + json" where
  "py_keys (JDict kvs) = Inr (JList (map (\<lambda>kv. JStr (fst kv)) kvs))"
| "py_keys _ = Inl (AttributeError ''keys'')"

text \<open>\<open>s.split(sep)\<close> for a one-character separator, and \<open>s.split("/")[-2:]\<close>.\<close>

fun split_on :: "char \<Rightarrow> string \<Rightarrow> string list" where
  "split_on c [] = [[]]"
| "split_on c (x # xs) =
     (if x = c then [] # split_on c xs
      else (case split_on c xs of [] \<Rightarrow> [[x]] | p # ps \<Rightarrow> (x # p) # ps))"

fun split_last2 :: "json \<Rightarrow> exc + json" where
  "split_last2 (JStr s) =
     (let parts = split_on CHR ''/'' s in Inr (JList (map JStr (drop (length parts - 2) parts))))"
| "split_last2 _ = Inl (AttributeError ''split'')"

text \<open>\<open>k in x\<close> for a string \<open>k\<close>.\<close>

fun py_in :: "string \<Rightarrow> json \<Rightarrow> exc + bool" where
  "py_in k (JDict kvs) = Inr (k \<in> set (map fst kvs))"
| "py_in k (JList xs) = Inr (JStr k \<in> set xs)"
| "py_in k (JStr s) = Inr (str_contains k s)"
| "py_in k _ = Inl (TypeError ''not iterable'')"

text \<open>The loop that writes one detail file per item, named by the item's field \<open>key\<close>.\<close>

fun save_details ::
  "gh_env \<Rightarrow> string list \<Rightarrow> string \<Rightarrow> json list \<Rightarrow> fetcher \<Rightarrow> exc option \<times> fetcher" where
  "save_details w details_dir key [] s = (None, s)"
| "save_details w details_dir key (item # rest) s =
     (case py_item item key of
        Inl e \<Rightarrow> (Some e, s)
      | Inr name \<Rightarrow>
          and_then (save_json w item (details_dir @ [gh_str w name @ ''.json'']) s)
            (save_details w details_dir key rest))"

text \<open>
  The shape shared by the fetches of a paginated list: print, fetch all pages, then
  summarise and save (\<open>store\<close>).
\<close>

definition fetch_list ::
  "gh_env \<Rightarrow> string \<Rightarrow> string \<Rightarrow> (string \<times> json) list option \<Rightarrow>
   (gh_env \<Rightarrow> json list \<Rightarrow> fetcher \<Rightarrow> exc option \<times> fetcher) \<Rightarrow> fetcher \<Rightarrow>
   (exc option \<times> fetcher) option" where
  "fetch_list w start endpoint params store s =
     (case fetch_paginated_data w endpoint params (say start [] s) of
        None \<Rightarrow> None
      | Some (Inl e, s1) \<Rightarrow> Some (Some e, s1)
      | Some (Inr items, s1) \<Rightarrow> Some (store w items s1))"

text \<open>Summarise with \<open>summary\<close>, save the list, record and print the count.\<close>

definition store_summary ::
  "(json \<Rightarrow> exc + json) \<Rightarrow> string list \<Rightarrow> string \<Rightarrow> gh_env \<Rightarrow> json list \<Rightarrow> fetcher \<Rightarrow>
   exc option \<times> fetcher" where
  "store_summary summary filepath name w items s =
     (case list_comp summary items of
        Inl e \<Rightarrow> (Some e, s)
      | Inr summaries \<Rightarrow>
          and_then (save_json w (JList summaries) filepath s)
            (\<lambda>s1. (None, say (name @ ''_done'') [JInt (int (length items))]
                           (set_fetched name (JInt (int (length items))) s1))))"

text \<open>The same with a detail file per item between the list and the count.\<close>

definition store_summary_details ::
  "(json \<Rightarrow> exc + json) \<Rightarrow> string \<Rightarrow> string \<Rightarrow> gh_env \<Rightarrow> json list \<Rightarrow> fetcher \<Rightarrow>
   exc option \<times> fetcher" where
  "store_summary_details summary name key w items s =
     (case list_comp summary items of
        Inl e \<Rightarrow> (Some e, s)
      | Inr summaries \<Rightarrow>
          and_then (save_json w (JList summaries) [name, ''list.json''] s)
            (\<lambda>s1. and_then (save_details w [name, ''details''] key items s1)
               (\<lambda>s2. (None, say (name @ ''_done'') [JInt (int (length items))]
                              (set_fetched name (JInt (int (length items))) s2)))))"

definition fetch_profile :: "gh_env \<Rightarrow> fetcher \<Rightarrow> (exc option \<times> fetcher) option" where
  "fetch_profile w s =
     Some (case make_request w (''/users/'' @ username s) None (say ''profile_start'' [] s) of
             (Inl e, s1) \<Rightarrow> (Some e, s1)
           | (Inr response, s1) \<Rightarrow>
               (case gh_json response of
                  Inl e \<Rightarrow> (Some e, s1)
                | Inr profile \<Rightarrow>
                    and_then (save_json w profile [''profile.json''] s1)
                      (\<lambda>s2. (None, set_fetched ''profile'' (JBool True) s2))))"

definition repo_summary :: "json \<Rightarrow> exc + json" where
  "repo_summary repo = dict_display
     [(''name'', py_item repo ''name''),
      (''full_name'', py_item repo ''full_name''),
      (''description'', py_item repo ''description''),
      (''stars'', py_item repo ''stargazers_count''),
      (''forks'', py_item repo ''forks_count''),
      (''language'', py_item repo ''language''),
      (''updated_at'', py_item repo ''updated_at''),
      (''html_url'', py_item repo ''html_url'')]"

definition fetch_repositories :: "gh_env \<Rightarrow> fetcher \<Rightarrow> (exc option \<times> fetcher) option" where
  "fetch_repositories w s =
     fetch_list w ''repositories_start'' (''/users/'' @ username s @ ''/repos'')
       (Some [(''type'', JStr ''all''), (''sort'', JStr ''updated'')])
       (store_summary_details repo_summary ''repositories'' ''name'') s"

definition gist_summary :: "json \<Rightarrow> exc + json" where
  "gist_summary gist = dict_display
     [(''id'', py_item gist ''id''),
      (''description'', py_item gist ''description''),
      (''public'', py_item gist ''public''),
      (''files'', bind_exc (py_item gist ''files'') py_keys),
      (''created_at'', py_item gist ''created_at''),
      (''updated_at'', py_item gist ''updated_at''),
      (''html_url'', py_item gist ''html_url'')]"

definition fetch_gists :: "gh_env \<Rightarrow> fetcher \<Rightarrow> (exc option \<times> fetcher) option" where
  "fetch_gists w s =
     fetch_list w ''gists_start'' (''/users/'' @ username s @ ''/gists'') None
       (store_summary_details gist_summary ''gists'' ''id'') s"

definition starred_summary :: "json \<Rightarrow> exc + json" where
  "starred_summary repo = dict_display
     [(''name'', py_item repo ''name''),
      (''full_name'', py_item repo ''full_name''),
      (''description'', py_item repo ''description''),
      (''stars'', py_item repo ''stargazers_count''),
      (''language'', py_item repo ''language''),
      (''html_url'', py_item repo ''html_url'')]"

definition fetch_starred :: "gh_env \<Rightarrow> fetcher \<Rightarrow> (exc option \<times> fetcher) option" where
  "fetch_starred w s =
     fetch_list w ''starred_start'' (''/users/'' @ username s @ ''/starred'')
       (Some [(''sort'', JStr ''created'')])
       (store_summary starred_summary [''starred'', ''repositories.json''] ''starred'') s"

definition user_summary :: "json \<Rightarrow> exc + json" where
  "user_summary user = dict_display
     [(''login'', py_item user ''login''),
      (''id'', py_item user ''id''),
      (''avatar_url'', py_item user ''avatar_url''),
      (''html_url'', py_item user ''html_url''),
      (''type'', py_item user ''type'')]"

definition fetch_followers :: "gh_env \<Rightarrow> fetcher \<Rightarrow> (exc option \<times> fetcher) option" where
  "fetch_followers w s =
     fetch_list w ''followers_start'' (''/users/'' @ username s @ ''/followers'') None
       (store_summary user_summary [''social'', ''followers.json''] ''followers'') s"

definition fetch_following :: "gh_env \<Rightarrow> fetcher \<Rightarrow> (exc option \<times> fetcher) option" where
  "fetch_following w s =
     fetch_list w ''following_start'' (''/users/'' @ username s @ ''/following'') None
       (store_summary user_summary [''social'', ''following.json''] ''following'') s"

text \<open>
  The fetches below wrap their work in \<open>try ... except Exception\<close>: the handler prints
  the error and records a count of 0 (\<open>False\<close> for the repository statistics).
\<close>

definition failed_handler :: "string \<Rightarrow> json \<Rightarrow> exc \<Rightarrow> fetcher \<Rightarrow> exc option \<times> fetcher" where
  "failed_handler name v e s =
     (None, set_fetched name v (say_err (name @ ''_failed'') [JStr (exc_str e)] s))"

definition guarded ::
  "string \<Rightarrow> (exc option \<times> fetcher) option \<Rightarrow> (exc option \<times> fetcher) option" where
  "guarded name r =
     (case r of None \<Rightarrow> None | Some r1 \<Rightarrow> Some (catch_exception r1 (failed_handler name (JInt 0))))"

definition org_summary :: "gh_env \<Rightarrow> json \<Rightarrow> exc + json" where
  "org_summary w org = dict_display
     [(''login'', py_item org ''login''),
      (''id'', py_item org ''id''),
      (''description'', py_get org ''description''),
      (''avatar_url'', py_item org ''avatar_url''),
      (''html_url'', bind_exc (py_item org ''login'')
          (\<lambda>login. Inr (JStr (''https://github.com/'' @ gh_str w login))))]"

definition fetch_organizations :: "gh_env \<Rightarrow> fetcher \<Rightarrow> (exc option \<times> fetcher) option" where
  "fetch_organizations w s =
     guarded ''organizations''
       (fetch_list w ''organizations_start'' (''/users/'' @ username s @ ''/orgs'') None
          (store_summary (org_summary w) [''organizations.json''] ''organizations'') s)"

definition event_summary :: "json \<Rightarrow> exc + json" where
  "event_summary event = dict_display
     [(''id'', py_item event ''id''),
      (''type'', py_item event ''type''),
      (''repo'', bind_exc (py_item event ''repo'') (\<lambda>repo. py_item repo ''name'')),
      (''created_at'', py_item event ''created_at''),
      (''public'', py_item event ''public'')]"

definition fetch_events :: "gh_env \<Rightarrow> fetcher \<Rightarrow> (exc option \<times> fetcher) option" where
  "fetch_events w s =
     guarded ''events''
       (fetch_list w ''events_start'' (''/users/'' @ username s @ ''/events/public'') None
          (store_summary event_summary [''events'', ''public_events.json''] ''events'') s)"

definition subscription_summary :: "json \<Rightarrow> exc + json" where
  "subscription_summary repo = dict_display
     [(''name'', py_item repo ''name''),
      (''full_name'', py_item repo ''full_name''),
      (''description'', py_item repo ''description''),
      (''html_url'', py_item repo ''html_url'')]"

definition fetch_subscriptions :: "gh_env \<Rightarrow> fetcher \<Rightarrow> (exc option \<times> fetcher) option" where
  "fetch_subscriptions w s =
     guarded ''subscriptions''
       (fetch_list w ''subscriptions_start'' (''/users/'' @ username s @ ''/subscriptions'') None
          (store_summary subscription_summary [''subscriptions.json''] ''subscriptions'') s)"

subsection \<open>Contribution calendar, search results, statistics\<close>

text \<open>
  \<open>_make_graphql_request\<close>: like \<open>_make_request\<close>, but a POST whose body is decoded
  inside the \<open>try\<close>.
\<close>

definition make_graphql_request :: "gh_env \<Rightarrow> string \<Rightarrow> fetcher \<Rightarrow> (exc + json) \<times> fetcher" where
  "make_graphql_request w query s =
     (let s1 = emit (HttpPost query) (s\<lparr>requests_made := requests_made s + 1\<rparr>)
      in case bind_exc (bind_exc (session_post w query) raise_for_status) gh_json of
           Inr result \<Rightarrow> (Inr result, s1)
         | Inl e \<Rightarrow>
             if is_RequestException e then
               (let error_msg = Message ''graphql_failed'' [JStr (exc_str e)]
                in (Inl e, emit (Stderr error_msg) (s1\<lparr>errors := errors s1 @ [error_msg]\<rparr>)))
             else (Inl e, s1))"

definition calendar_query :: "string \<Rightarrow> string" where
  "calendar_query login =
     ''{ user(login: '' @ [CHR 0x22] @ login @ [CHR 0x22] @
     '') { contributionsCollection { contributionCalendar { totalContributions weeks '' @
     ''{ contributionDays { contributionCount date weekday } } } '' @
     ''restrictedContributionsCount } } }''"

definition calendar_missing :: "fetcher \<Rightarrow> exc option \<times> fetcher" where
  "calendar_missing s =
     (None, set_fetched ''contribution_calendar'' (JInt 0) (say_err ''calendar_failed'' [] s))"

definition calendar_save :: "gh_env \<Rightarrow> json \<Rightarrow> fetcher \<Rightarrow> exc option \<times> fetcher" where
  "calendar_save w contribution_data s =
     and_then (save_json w contribution_data [''contributions'', ''calendar.json''] s)
       (\<lambda>s1. case bind_exc (py_item contribution_data ''contributionCalendar'')
                     (\<lambda>c. py_item c ''totalContributions'') of
                Inl e \<Rightarrow> (Some e, s1)
              | Inr tot \<Rightarrow>
                  (None, say ''calendar_done'' [tot] (set_fetched ''contribution_calendar'' tot s1)))"

definition calendar_store :: "gh_env \<Rightarrow> json \<Rightarrow> fetcher \<Rightarrow> exc option \<times> fetcher" where
  "calendar_store w result s =
     (case py_in ''data'' result of
        Inl e \<Rightarrow> (Some e, s)
      | Inr False \<Rightarrow> calendar_missing s
      | Inr True \<Rightarrow>
          (case bind_exc (py_item result ''data'') (\<lambda>d. py_item d ''user'') of
             Inl e \<Rightarrow> (Some e, s)
           | Inr user \<Rightarrow>
               if truthy user then
                 (case py_item user ''contributionsCollection'' of
                    Inl e \<Rightarrow> (Some e, s)
                  | Inr contribution_data \<Rightarrow> calendar_save w contribution_data s)
               else calendar_missing s))"

definition fetch_contribution_calendar :: "gh_env \<Rightarrow> fetcher \<Rightarrow> (exc option \<times> fetcher) option" where
  "fetch_contribution_calendar w s =
     guarded ''contribution_calendar''
       (Some (case make_graphql_request w (calendar_query (username s)) (say ''calendar_start'' [] s) of
                (Inl e, s1) \<Rightarrow> (Some e, s1)
              | (Inr result, s1) \<Rightarrow> calendar_store w result s1))"

text \<open>Pull requests and issues come from the search API, first page only.\<close>

definition search_summary :: "json \<Rightarrow> exc + json" where
  "search_summary pr = dict_display
     [(''title'', py_item pr ''title''),
      (''state'', py_item pr ''state''),
      (''created_at'', py_item pr ''created_at''),
      (''updated_at'', py_item pr ''updated_at''),
      (''closed_at'', py_get pr ''closed_at''),
      (''repository'', bind_exc (py_item pr ''repository_url'') split_last2),
      (''html_url'', py_item pr ''html_url''),
      (''comments'', py_get_default pr ''comments'' (JInt 0)),
      (''labels'', bind_exc (py_get_default pr ''labels'' (JList []))
          (\<lambda>labels. bind_exc (py_iter labels)
             (\<lambda>ls. bind_exc (list_comp (\<lambda>label. py_item label ''name'') ls)
                (\<lambda>names. Inr (JList names)))))]"

definition search_store ::
  "gh_env \<Rightarrow> string \<Rightarrow> json \<Rightarrow> fetcher \<Rightarrow> exc option \<times> fetcher" where
  "search_store w name search_result s =
     (case py_get_default search_result ''total_count'' (JInt 0) of
        Inl e \<Rightarrow> (Some e, s)
      | Inr total_count \<Rightarrow>
          (case bind_exc (py_get_default search_result ''items'' (JList [])) py_iter of
             Inl e \<Rightarrow> (Some e, s)
           | Inr prs \<Rightarrow>
               (case list_comp search_summary prs of
                  Inl e \<Rightarrow> (Some e, s)
                | Inr summaries \<Rightarrow>
                    and_then
                      (save_json w
                         (JDict [(''total_count'', total_count),
                                 (''fetched_count'', JInt (int (length prs))),
                                 (name, JList summaries)])
                         [name, ''created.json''] s)
                      (\<lambda>s1. (None, say (name @ ''_done'') [total_count, JInt (int (length prs))]
                                     (set_fetched name total_count s1))))))"

definition fetch_search ::
  "gh_env \<Rightarrow> string \<Rightarrow> string \<Rightarrow> fetcher \<Rightarrow> (exc option \<times> fetcher) option" where
  "fetch_search w name kind s =
     guarded name
       (Some (case make_request w ''/search/issues''
                     (Some [(''q'', JStr (''author:'' @ username s @ '' type:'' @ kind)),
                            (''per_page'', JInt 100), (''sort'', JStr ''created''),
                            (''order'', JStr ''desc'')])
                     (say (name @ ''_start'') [] s) of
                (Inl e, s1) \<Rightarrow> (Some e, s1)
              | (Inr response, s1) \<Rightarrow>
                  (case gh_json response of
                     Inl e \<Rightarrow> (Some e, s1)
                   | Inr search_result \<Rightarrow> search_store w name search_result s1)))"

definition fetch_pull_requests :: "gh_env \<Rightarrow> fetcher \<Rightarrow> (exc option \<times> fetcher) option" where
  "fetch_pull_requests w s = fetch_search w ''pull_requests'' ''pr'' s"

definition fetch_issues :: "gh_env \<Rightarrow> fetcher \<Rightarrow> (exc option \<times> fetcher) option" where
  "fetch_issues w s = fetch_search w ''issues'' ''issue'' s"

text \<open>
  Language statistics. \<open>x += sz\<close> on an integer: a JSON integer or boolean adds, any
  other value raises \<open>TypeError\<close>.
\<close>

fun py_add :: "int \<Rightarrow> json \<Rightarrow> exc + int" where
  "py_add n (JInt m) = Inr (n + m)"
| "py_add n (JBool b) = Inr (n + (if b then 1 else 0))"
| "py_add n _ = Inl (TypeError ''unsupported operand'')"

text \<open>
  Dict keys: lists and dicts are unhashable; \<open>True\<close> and \<open>1\<close> are the same key (as are
  \<open>False\<close> and \<open>0\<close>).
\<close>

fun hashable :: "json \<Rightarrow> bool" where
  "hashable (JList _) = False"
| "hashable (JDict _) = False"
| "hashable _ = True"

fun key_int :: "json \<Rightarrow> int option" where
  "key_int (JInt n) = Some n"
| "key_int (JBool b) = Some (if b then 1 else 0)"
| "key_int _ = None"

definition key_eq :: "json \<Rightarrow> json \<Rightarrow> bool" where
  "key_eq a b = (a = b \<or> (key_int a \<noteq> None \<and> key_int a = key_int b))"

text \<open>
  One repository inside the loop, for a language that passed \<open>if language:\<close>. The entry is
  created on first sight; then its count and sz, and the total, grow.
\<close>

fun add_language ::
  "json \<Rightarrow> json \<Rightarrow> (json \<times> language_entry) list \<Rightarrow> exc + (json \<times> language_entry) list" where
  "add_language language sz [] =
     (case py_add 0 sz of
        Inl e \<Rightarrow> Inl e
      | Inr n \<Rightarrow> Inr [(language, \<lparr>repo_count = 1, total_size_kb = n, percentage = 0\<rparr>)])"
| "add_language language sz ((k, entry) # rest) =
     (if key_eq k language then
        (case py_add (total_size_kb entry) sz of
           Inl e \<Rightarrow> Inl e
         | Inr n \<Rightarrow> Inr ((k, entry\<lparr>repo_count := repo_count entry + 1, total_size_kb := n\<rparr>) # rest))
      else (case add_language language sz rest of
              Inl e \<Rightarrow> Inl e
            | Inr rest1 \<Rightarrow> Inr ((k, entry) # rest1)))"

text \<open>The body of the \<open>for repo_file in ...\<close> loop, on what \<open>json.load\<close> gave or raised.\<close>

definition count_repo ::
  "(exc + json) \<Rightarrow> (json \<times> language_entry) list \<times> int \<Rightarrow>
   exc + ((json \<times> language_entry) list \<times> int)" where
  "count_repo loaded acc =
     (case loaded of
        Inl e \<Rightarrow> Inl e
      | Inr repo \<Rightarrow>
          (case py_get repo ''language'' of
             Inl e \<Rightarrow> Inl e
           | Inr language \<Rightarrow>
               (case py_get_default repo ''size'' (JInt 0) of
                  Inl e \<Rightarrow> Inl e
                | Inr sz \<Rightarrow>
                    if truthy language then
                      (if \<not> hashable language then Inl (TypeError ''unhashable'')
                       else (case add_language language sz (fst acc) of
                               Inl e \<Rightarrow> Inl e
                             | Inr stats \<Rightarrow>
                                 (case py_add (snd acc) sz of
                                    Inl e \<Rightarrow> Inl e
                                  | Inr tot \<Rightarrow> Inr (stats, tot))))
                    else Inr acc)))"

fun count_repos ::
  "(exc + json) list \<Rightarrow> (json \<times> language_entry) list \<times> int \<Rightarrow>
   exc + ((json \<times> language_entry) list \<times> int)" where
  "count_repos [] acc = Inr acc"
| "count_repos (f # fs) acc =
     (case count_repo f acc of Inl e \<Rightarrow> Inl e | Inr acc1 \<Rightarrow> count_repos fs acc1)"

text \<open>
  \<open>round(x, 2)\<close>: to the nearest multiple of 1/100, ties to the even one. The source
  computes \<open>x\<close> in floating point; here it is exact.
\<close>

definition round_half_even :: "rat \<Rightarrow> int" where
  "round_half_even q =
     (let f = \<lfloor>q\<rfloor>; d = q - of_int f
      in if d < 1 / 2 then f else if 1 / 2 < d then f + 1 else if even f then f else f + 1)"

definition py_round2 :: "rat \<Rightarrow> rat" where
  "py_round2 x = of_int (round_half_even (x * 100)) / 100"

definition with_percentage :: "int \<Rightarrow> json \<times> language_entry \<Rightarrow> json \<times> language_entry" where
  "with_percentage tot kv =
     (fst kv, (snd kv)\<lparr>percentage :=
        py_round2 (if tot > 0 then of_int (total_size_kb (snd kv)) / of_int tot * 100 else 0)\<rparr>)"

text \<open>\<open>sorted(items, key=..., reverse=True)\<close>: stable, largest key first.\<close>

definition sorted_desc :: "('a \<Rightarrow> int) \<Rightarrow> 'a list \<Rightarrow> 'a list" where
  "sorted_desc key xs = rev (sort_key key (rev xs))"

definition compute_language_stats :: "(exc + json) list \<Rightarrow> exc + language_report" where
  "compute_language_stats files =
     (case count_repos files ([], 0) of
        Inl e \<Rightarrow> Inl e
      | Inr (language_stats, tot) \<Rightarrow>
          (let sorted_languages =
                 sorted_desc (\<lambda>kv. total_size_kb (snd kv)) (map (with_percentage tot) language_stats)
           in Inr \<lparr>languages = sorted_languages, total_size = tot,
                   language_count = length sorted_languages\<rparr>))"

definition save_languages ::
  "gh_env \<Rightarrow> language_report \<Rightarrow> fetcher \<Rightarrow> exc option \<times> fetcher" where
  "save_languages w report s =
     (let filepath = [''statistics'', ''languages.json'']
      in case write_json w filepath of
           Some e \<Rightarrow> (Some e, s)
         | None \<Rightarrow> (None, say ''saved_to'' [JList (map JStr filepath)]
                            (emit (SavedLanguages filepath report) s)))"

definition fetch_language_stats :: "gh_env \<Rightarrow> fetcher \<Rightarrow> (exc option \<times> fetcher) option" where
  "fetch_language_stats w s =
     (let s0 = say ''language_stats_start'' [] s
      in case repos_details w of
           None \<Rightarrow> Some (None, say_err ''need_repositories'' [] s0)
         | Some files \<Rightarrow>
             guarded ''language_stats''
               (Some (case compute_language_stats files of
                        Inl e \<Rightarrow> (Some e, s0)
                      | Inr report \<Rightarrow>
                          and_then (save_languages w report s0)
                            (\<lambda>s1. (None, say ''language_stats_done'' [JInt (int (language_count report))]
                                      (set_fetched ''language_stats''
                                         (JInt (int (language_count report))) s1))))))"

text \<open>Repository statistics, from the list file written by \<open>fetch_repositories\<close>.\<close>

record language_totals =
  lt_repos :: int
  lt_stars :: int
  lt_forks :: int

record repo_stats =
  total_stars :: int
  total_forks :: int
  total_watchers :: int
  total_repos :: nat
  by_language :: "(json \<times> language_totals) list"

fun add_totals ::
  "json \<Rightarrow> json \<Rightarrow> json \<Rightarrow> (json \<times> language_totals) list \<Rightarrow>
   exc + (json \<times> language_totals) list" where
  "add_totals language stars forks [] =
     (case py_add 0 stars of
        Inl e \<Rightarrow> Inl e
      | Inr st \<Rightarrow>
          (case py_add 0 forks of
             Inl e \<Rightarrow> Inl e
           | Inr fk \<Rightarrow> Inr [(language, \<lparr>lt_repos = 1, lt_stars = st, lt_forks = fk\<rparr>)]))"
| "add_totals language stars forks ((k, entry) # rest) =
     (if key_eq k language then
        (case py_add (lt_stars entry) stars of
           Inl e \<Rightarrow> Inl e
         | Inr st \<Rightarrow>
             (case py_add (lt_forks entry) forks of
                Inl e \<Rightarrow> Inl e
              | Inr fk \<Rightarrow>
                  Inr ((k, \<lparr>lt_repos = lt_repos entry + 1, lt_stars = st, lt_forks = fk\<rparr>) # rest)))
      else (case add_totals language stars forks rest of
              Inl e \<Rightarrow> Inl e
            | Inr rest1 \<Rightarrow> Inr ((k, entry) # rest1)))"

definition stats_repo :: "json \<Rightarrow> repo_stats \<Rightarrow> exc + repo_stats" where
  "stats_repo repo acc =
     bind_exc (py_get_default repo ''stars'' (JInt 0)) (\<lambda>stars.
     bind_exc (py_add (total_stars acc) stars) (\<lambda>st.
     bind_exc (py_get_default repo ''forks'' (JInt 0)) (\<lambda>forks.
     bind_exc (py_add (total_forks acc) forks) (\<lambda>fk.
     bind_exc (py_get repo ''language'') (\<lambda>language.
       if truthy language then
         (if \<not> hashable language then Inl (TypeError ''unhashable'')
          else bind_exc (add_totals language stars forks (by_language acc))
                 (\<lambda>bl. Inr (acc\<lparr>total_stars := st, total_forks := fk, by_language := bl\<rparr>)))
       else Inr (acc\<lparr>total_stars := st, total_forks := fk\<rparr>))))))"

fun stats_repos :: "json list \<Rightarrow> repo_stats \<Rightarrow> exc + repo_stats" where
  "stats_repos [] acc = Inr acc"
| "stats_repos (repo # rest) acc =
     (case stats_repo repo acc of Inl e \<Rightarrow> Inl e | Inr acc1 \<Rightarrow> stats_repos rest acc1)"

text \<open>\<open>len(x)\<close>.\<close>

fun py_len :: "json \<Rightarrow> exc + nat" where
  "py_len (JList xs) = Inr (length xs)"
| "py_len (JDict kvs) = Inr (length kvs)"
| "py_len (JStr s) = Inr (length s)"
| "py_len _ = Inl (TypeError ''no len'')"

definition compute_repository_stats :: "json \<Rightarrow> exc + repo_stats" where
  "compute_repository_stats repos =
     bind_exc (py_len repos) (\<lambda>n.
     bind_exc (py_iter repos) (\<lambda>items.
       stats_repos items
         \<lparr>total_stars = 0, total_forks = 0, total_watchers = 0, total_repos = n, by_language = []\<rparr>))"

definition repo_stats_json :: "gh_env \<Rightarrow> repo_stats \<Rightarrow> json" where
  "repo_stats_json w st =
     JDict [(''total_stars'', JInt (total_stars st)),
            (''total_forks'', JInt (total_forks st)),
            (''total_watchers'', JInt (total_watchers st)),
            (''total_repos'', JInt (int (total_repos st))),
            (''by_language'',
               JDict (map (\<lambda>kv. (gh_str w (fst kv),
                        JDict [(''repos'', JInt (lt_repos (snd kv))),
                               (''stars'', JInt (lt_stars (snd kv))),
                               (''forks'', JInt (lt_forks (snd kv)))]))
                      (by_language st)))]"

definition fetch_repository_stats :: "gh_env \<Rightarrow> fetcher \<Rightarrow> (exc option \<times> fetcher) option" where
  "fetch_repository_stats w s =
     (let s0 = say ''repository_stats_start'' [] s
      in case repos_list w of
           None \<Rightarrow> Some (None, say_err ''need_repositories'' [] s0)
         | Some loaded \<Rightarrow>
             Some (catch_exception
               (case bind_exc loaded compute_repository_stats of
                  Inl e \<Rightarrow> (Some e, s0)
                | Inr st \<Rightarrow>
                    and_then (save_json w (repo_stats_json w st) [''statistics'', ''repositories.json''] s0)
                      (\<lambda>s1. (None, say ''repository_stats_done''
                                      [JInt (total_stars st), JInt (total_forks st)]
                                      (set_fetched ''repository_stats'' (JBool True) s1))))
               (failed_handler ''repository_stats'' (JBool False))))"

subsection \<open>The whole run\<close>

definition message_json :: "message \<Rightarrow> json" where
  "message_json m = (case m of Message fmt args \<Rightarrow> JList (JStr fmt # args))"

definition metadata_path :: "string list" where
  "metadata_path = [''metadata.json'']"

definition save_metadata :: "gh_env \<Rightarrow> fetcher \<Rightarrow> exc option \<times> fetcher" where
  "save_metadata w s =
     (let s0 = say ''saving_metadata'' [] s;
          metadata = JDict
            [(''username'', JStr (username s0)),
             (''fetched_at'', JStr (now_iso w)),
             (''output_directory'', JStr (output_dir s0)),
             (''statistics'', JDict
                [(''requests_made'', JInt (int (requests_made s0))),
                 (''data_fetched'', JDict (data_fetched s0)),
                 (''errors'', JList (map message_json (errors s0)))]),
             (''api_version'', JStr ''2022-11-28'')]
      in save_json w metadata metadata_path s0)"

text \<open>\<open>isinstance(value, int)\<close>: integers and booleans.\<close>

fun is_int :: "json \<Rightarrow> bool" where
  "is_int (JInt _) = True"
| "is_int (JBool _) = True"
| "is_int _ = False"

definition summary_lines :: "fetcher \<Rightarrow> message list" where
  "summary_lines s =
     [Message ''summary_header'' [],
      Message ''summary_requests'' [JInt (int (requests_made s))],
      Message ''summary_fetched'' []]
     @ map (\<lambda>kv. if is_int (snd kv) then Message ''summary_count'' [JStr (fst kv), snd kv]
                  else Message ''summary_check'' [JStr (fst kv)]) (data_fetched s)
     @ (if errors s \<noteq> []
        then Message ''summary_errors'' [JInt (int (length (errors s)))]
             # map (\<lambda>m. Message ''summary_error'' [message_json m]) (take 5 (errors s))
        else [])
     @ [Message ''summary_saved_to'' [JStr (output_dir s)],
        Message ''summary_footer'' []]"

definition print_summary :: "fetcher \<Rightarrow> fetcher" where
  "print_summary s = s\<lparr>events := events s @ map Stdout (summary_lines s)\<rparr>"

text \<open>The statements of the \<open>try\<close> block of \<open>fetch_all\<close>, run until one raises.\<close>

fun run_steps ::
  "(fetcher \<Rightarrow> (exc option \<times> fetcher) option) list \<Rightarrow> fetcher \<Rightarrow> (exc option \<times> fetcher) option" where
  "run_steps [] s = Some (None, s)"
| "run_steps (f # fs) s =
     (case f s of
        None \<Rightarrow> None
      | Some (Some e, s1) \<Rightarrow> Some (Some e, s1)
      | Some (None, s1) \<Rightarrow> run_steps fs s1)"

definition contribution_step :: "gh_env \<Rightarrow> fetcher \<Rightarrow> (exc option \<times> fetcher) option" where
  "contribution_step w s =
     (if truthy_str (token s) then fetch_contribution_calendar w s
      else Some (None, say ''skip_contribution_calendar'' [] s))"

definition fetch_steps :: "gh_env \<Rightarrow> (fetcher \<Rightarrow> (exc option \<times> fetcher) option) list" where
  "fetch_steps w =
     [fetch_profile w, fetch_repositories w, fetch_gists w, fetch_starred w,
      fetch_followers w, fetch_following w, fetch_organizations w,
      fetch_events w, fetch_subscriptions w,
      contribution_step w,
      fetch_pull_requests w, fetch_issues w,
      fetch_language_stats w, fetch_repository_stats w]"

text \<open>
  The \<open>except\<close> clauses of \<open>fetch_all\<close>: the state after the handler, and the exception
  that is still to be raised after \<open>finally\<close> (only a \<open>SystemExit\<close> would be).
\<close>

definition fetch_all_except :: "exc option \<times> fetcher \<Rightarrow> exc option \<times> fetcher" where
  "fetch_all_except r =
     (case r of
        (None, s) \<Rightarrow> (None, s)
      | (Some e, s) \<Rightarrow>
          if e = KeyboardInterrupt then (None, say ''interrupted'' [] s)
          else if is_Exception e then (None, say_err ''run_failed'' [JStr (exc_str e)] s)
          else (Some e, s))"

text \<open>The \<open>finally\<close> block: an exception of its own replaces a pending one.\<close>

definition fetch_all_finally :: "gh_env \<Rightarrow> exc option \<times> fetcher \<Rightarrow> exc option \<times> fetcher" where
  "fetch_all_finally w r =
     (case save_metadata w (snd r) of
        (Some e, s) \<Rightarrow> (Some e, s)
      | (None, s) \<Rightarrow> (fst r, print_summary s))"

definition fetch_all :: "gh_env \<Rightarrow> fetcher \<Rightarrow> (exc option \<times> fetcher) option" where
  "fetch_all w s =
     (let s0 = say ''output_directory'' [JStr (output_dir s)] (say ''start'' [JStr (username s)] s)
      in case mkdir_output w of
           Some e \<Rightarrow> Some (Some e, s0)
         | None \<Rightarrow>
             (case run_steps (fetch_steps w) s0 of
                None \<Rightarrow> None
              | Some r \<Rightarrow> Some (fetch_all_finally w (fetch_all_except r))))"

text \<open>
  The exit status of the interpreter: that of \<open>sys.exit\<close>, 1 after an uncaught
  exception (130 after an uncaught \<open>KeyboardInterrupt\<close>), 0 when the script runs off
  its end.
\<close>

fun exit_status :: "exc option \<Rightarrow> nat" where
  "exit_status None = 0"
| "exit_status (Some (SystemExit n)) = n"
| "exit_status (Some KeyboardInterrupt) = 130"
| "exit_status (Some _) = 1"

text \<open>
  \<open>GitHubUserDataFetcher.__init__\<close> and \<open>main\<close>: the token is the \<open>--token\<close> flag or, by
  default, the environment variable; \<open>main\<close> ends after \<open>fetch_all\<close> without calling
  \<open>sys.exit\<close>.
\<close>

definition new_fetcher :: "string \<Rightarrow> string option \<Rightarrow> string \<Rightarrow> fetcher" where
  "new_fetcher user tok out =
     \<lparr>username = user, token = tok, output_dir = out @ ''/'' @ user,
      requests_made = 0, data_fetched = [], errors = [], events = []\<rparr>"

definition fetch_main ::
  "gh_env \<Rightarrow> string \<Rightarrow> string option \<Rightarrow> string option \<Rightarrow> string \<Rightarrow> (nat \<times> fetcher) option" where
  "fetch_main w user token_flag env_token out =
     (case fetch_all w (new_fetcher user (case token_flag of Some t \<Rightarrow> Some t | None \<Rightarrow> env_token) out) of
        None \<Rightarrow> None
      | Some (r, s) \<Rightarrow> Some (exit_status r, s))"

subsection \<open>Measures of the language statistics\<close>






section \<open>Properties of the uploader\<close>

lemma upload_success_original_path:
  "original_path (fst (upload_success w r j)) = original_path r"
proof (cases "py_get_default j ''data'' (JDict [])")
  case (Inl e)
  then show ?thesis by (simp add: upload_success_def)
next
  case (Inr data)
  then show ?thesis
    by (cases "extract_imgur_data w data") (simp_all add: upload_success_def)
qed

lemma upload_response_data_original_path:
  "original_path (fst (upload_response_data w r j)) = original_path r"
proof (cases "py_get j ''success''")
  case (Inl e)
  then show ?thesis by (simp add: upload_response_data_def)
next
  case (Inr ok)
  then show ?thesis
    by (cases "truthy ok") (simp_all add: upload_response_data_def upload_success_original_path)
qed

lemma upload_response_original_path:
  "original_path (fst (upload_response w r resp)) = original_path r"
proof (cases "status_code resp = 200")
  case True
  then show ?thesis
    by (cases "json_of resp")
       (simp_all add: upload_response_def upload_response_data_original_path)
next
  case False
  then show ?thesis by (simp add: upload_response_def)
qed

lemma upload_try_original_path:
  "original_path (fst (upload_try w r p c a t d)) = original_path r"
proof (cases "read_b64 w p")
  case (Inl e)
  then show ?thesis by (simp add: upload_try_def)
next
  case (Inr image_data)
  show ?thesis
  proof (cases "auth_header c a")
    case None
    with Inr show ?thesis by (simp add: upload_try_def)
  next
    case (Some h)
    with Inr show ?thesis
      by (cases "post_image w h (upload_payload image_data t d)")
         (simp_all add: upload_try_def upload_response_original_path)
  qed
qed

lemma upload_except_original_path:
  "upload_except r e = Inr r' \<Longrightarrow> original_path r' = original_path r"
  by (cases e) (auto simp: upload_except_def)

lemma upload_image_to_imgur_original_path:
  assumes "upload_image_to_imgur w p c a t d = Inr r"
  shows "original_path r = p"
proof -
  define r0 where "r0 = \<lparr>original_path = p, filename = basename p, success = False,
      error = None, upload_type = (if truthy_str a then ''authenticated'' else ''anonymous''),
      imgur_data = None\<rparr>"
  obtain r1 oe where t: "upload_try w r0 p c a t d = (r1, oe)"
    by (cases "upload_try w r0 p c a t d")
  have r1: "original_path r1 = p"
    using upload_try_original_path [of w r0 p c a t d] t by (simp add: r0_def)
  show ?thesis
  proof (cases "path_exists w p \<and> suffix_lower w p \<in> set valid_extensions")
    case False
    with assms show ?thesis
      by (auto simp: upload_image_to_imgur_def Let_def split: if_splits)
  next
    case True
    show ?thesis
    proof (cases oe)
      case None
      with assms True t r1 show ?thesis
        by (simp add: upload_image_to_imgur_def Let_def r0_def)
    next
      case (Some e)
      with assms True t have "upload_except r1 e = Inr r"
        by (simp add: upload_image_to_imgur_def Let_def r0_def)
      from upload_except_original_path [OF this] r1 show ?thesis by simp
    qed
  qed
qed

lemma upload_loop_inv:
  "upload_loop w ps c a acc = Inr r \<Longrightarrow>
     total r = total acc \<and>
     successful r + failed r = successful acc + failed acc + length ps \<and>
     map Inr (uploads r) = map Inr (uploads acc) @ map (\<lambda>p. upload_image_to_imgur w p c a None None) ps"
proof (induction ps arbitrary: acc)
  case Nil
  then show ?case by simp
next
  case (Cons p ps)
  from Cons.prems obtain x where x: "upload_image_to_imgur w p c a None None = Inr x"
    by (cases "upload_image_to_imgur w p c a None None") auto
  let ?acc1 = "acc\<lparr>uploads := uploads acc @ [x]\<rparr>"
  let ?acc2 = "if success x then ?acc1\<lparr>successful := successful ?acc1 + 1\<rparr>
               else ?acc1\<lparr>failed := failed ?acc1 + 1\<rparr>"
  from Cons.prems x have "upload_loop w ps c a ?acc2 = Inr r"
    by (simp add: Let_def)
  from Cons.IH [OF this] x show ?case
    by (simp split: if_splits)
qed

lemma upload_results_paths:
  "map Inr rs = map (\<lambda>p. upload_image_to_imgur w p c a None None) ps \<Longrightarrow>
     map original_path rs = ps"
proof (induction rs arbitrary: ps)
  case Nil
  then show ?case by simp
next
  case (Cons x rs)
  then obtain p ps' where ps: "ps = p # ps'" by (cases ps) auto
  with Cons.prems have "upload_image_to_imgur w p c a None None = Inr x"
    and "map Inr rs = map (\<lambda>p. upload_image_to_imgur w p c a None None) ps'"
    by simp_all
  with Cons.IH [of ps'] upload_image_to_imgur_original_path [of w p c a None None x] ps
  show ?case by simp
qed

text \<open>
  C6. Whenever the aggregator returns a summary for a list of image paths, its counts
  satisfy successful + failed = total = length of the input, and the uploads list holds
  exactly the result of each input path, one per path, in input order.
\<close>

theorem upload_multiple_images_counts:
  assumes "upload_multiple_images w image_paths client_id access_token = Inr r"
  shows "successful r + failed r = total r \<and>
         total r = length image_paths \<and>
         length (uploads r) = length image_paths \<and>
         map original_path (uploads r) = image_paths \<and>
         map Inr (uploads r) =
           map (\<lambda>p. upload_image_to_imgur w p client_id access_token None None) image_paths"
proof -
  note inv = upload_loop_inv [OF assms [unfolded upload_multiple_images_def]]
  have m: "map Inr (uploads r) =
           map (\<lambda>p. upload_image_to_imgur w p client_id access_token None None) image_paths"
    using inv by simp
  have p: "map original_path (uploads r) = image_paths"
    by (rule upload_results_paths [OF m])
  from p have "length (map original_path (uploads r)) = length image_paths" by simp
  then have l: "length (uploads r) = length image_paths" by simp
  from inv m p l show ?thesis by simp
qed

lemma upload_multiple_images_example:
  "\<exists>r. upload_multiple_images upload_env_example [''a.png'', ''b.txt'', ''c.png'']
         (Some ''cid'') None = Inr r \<and> successful r = 1"
  by (simp add: upload_multiple_images_def upload_image_to_imgur_def upload_env_example_def
      valid_extensions_def upload_try_def auth_header_def upload_response_def
      upload_response_data_def upload_success_def extract_imgur_data_def upload_payload_def
      Let_def)

theorem upload_multiple_images_counts_witness:
  "\<exists>r. upload_multiple_images upload_env_example [''a.png'', ''b.txt'', ''c.png'']
         (Some ''cid'') None = Inr r
     \<and> successful r = 1 \<and> failed r = 2 \<and> total r = 3
     \<and> map original_path (uploads r) = [''a.png'', ''b.txt'', ''c.png'']"
proof -
  obtain r where r: "upload_multiple_images upload_env_example [''a.png'', ''b.txt'', ''c.png'']
      (Some ''cid'') None = Inr r" and s: "successful r = 1"
    using upload_multiple_images_example by blast
  from upload_multiple_images_counts [OF r] s r show ?thesis by simp
qed

section \<open>Properties of the paginated fetch\<close>

lemma dict_set_twice: "dict_set (dict_set d k v) k v' = dict_set d k v'"
  by (induction d) auto

lemma gets_of_append: "gets_of (xs @ ys) = gets_of xs @ gets_of ys"
  by (induction xs rule: gets_of.induct) auto

lemma serves_pageD:
  assumes "serves_page w endpoint ps items nxt"
  obtains r where "session_get_checked w endpoint (Some ps) = Inr r"
    and "gh_json r = Inr (JList items)" and "has_next r = nxt"
proof (cases "session_get w endpoint (Some ps)")
  case (Inl e)
  with assms show ?thesis by (simp add: serves_page_def)
next
  case (Inr r)
  with assms have "session_get_checked w endpoint (Some ps) = Inr r"
    and "gh_json r = Inr (JList items)" and "has_next r = nxt"
    by (simp_all add: serves_page_def session_get_checked_def raise_for_status_def)
  then show ?thesis by (rule that)
qed

lemma make_request_ok:
  "session_get_checked w endpoint ps = Inr r \<Longrightarrow>
   make_request w endpoint ps s =
     (Inr r, emit (HttpGet endpoint ps) (s\<lparr>requests_made := requests_made s + 1\<rparr>))"
  by (simp add: make_request_def Let_def)

lemma fetch_page_serves:
  assumes "serves_page w endpoint ps items nxt"
  shows "fetch_page w endpoint ps page acc s =
     (if items = [] then Break acc else if nxt then Continue (acc @ items) else Break (acc @ items),
      requested endpoint ps page s)"
proof -
  from assms obtain r where r: "session_get_checked w endpoint (Some ps) = Inr r"
    and j: "gh_json r = Inr (JList items)" and n: "has_next r = nxt"
    by (rule serves_pageD)
  have b: "page_body r acc =
      (if items = [] then Break acc else if nxt then Continue (acc @ items) else Break (acc @ items))"
    using j n by (simp add: page_body_def)
  show ?thesis
    by (simp add: fetch_page_def Let_def make_request_ok [OF r] b requested_def emit_def)
qed

lemma fetch_pages_params:
  "fetch_pages w endpoint (dict_set params ''page'' v) page acc s =
   fetch_pages w endpoint params page acc s"
  by (subst fetch_pages.simps, subst (2) fetch_pages.simps) (simp add: dict_set_twice)

lemma fetch_pages_continue:
  assumes "serves_page w endpoint (dict_set params ''page'' (JInt (int page))) items True"
    and "items \<noteq> []"
  shows "fetch_pages w endpoint params page acc s =
     fetch_pages w endpoint params (Suc page) (acc @ items)
       (requested endpoint (dict_set params ''page'' (JInt (int page))) page s)"
  by (subst fetch_pages.simps)
     (simp add: fetch_page_serves [OF assms(1)] assms(2) fetch_pages_params)


lemma requests_made_requested [simp]:
  "requests_made (requested endpoint ps page s) = requests_made s + 1"
  by (simp add: requested_def emit_def)

lemma gets_of_requested [simp]:
  "gets_of (events (requested endpoint ps page s)) = gets_of (events s) @ [(endpoint, Some ps)]"
  by (simp add: requested_def emit_def gets_of_append)




lemma fetch_page_raises:
  assumes "page_raises w endpoint ps e" and "is_Exception e"
  shows "\<exists>s'. fetch_page w endpoint ps page acc s = (Break acc, s') \<and>
     requests_made s' = requests_made s + 1 \<and>
     gets_of (events s') = gets_of (events s) @ [(endpoint, Some ps)] \<and>
     last (events s') = Stderr (Message ''page_error'' [JInt (int page), JStr (exc_str e)])"
proof (cases "session_get_checked w endpoint (Some ps)")
  case (Inl e')
  with assms(1) have e: "e' = e" by (simp add: page_raises_def)
  show ?thesis
    using Inl e assms(2)
    by (simp add: fetch_page_def make_request_def Let_def emit_def gets_of_append)
next
  case (Inr r)
  with assms(1) have "gh_json r = Inl e" by (simp add: page_raises_def)
  then have "page_body r acc = Raised e" by (simp add: page_body_def)
  then show ?thesis
    using assms(2)
    by (simp add: fetch_page_def Let_def make_request_ok [OF Inr] emit_def gets_of_append)
qed

lemma fetch_pages_fail:
  assumes good: "\<And>j. page \<le> j \<Longrightarrow> j < k \<Longrightarrow>
      serves_page w endpoint (dict_set params ''page'' (JInt (int j))) (pg j) True \<and> pg j \<noteq> []"
    and le: "page \<le> k"
    and bad: "page_raises w endpoint (dict_set params ''page'' (JInt (int k))) e"
    and exc: "is_Exception e"
  shows "\<exists>s'. fetch_pages w endpoint params page acc s =
       Some (Inr (acc @ concat (map pg [page..<k])), s') \<and>
     requests_made s' = requests_made s + (Suc k - page) \<and>
     gets_of (events s') = gets_of (events s) @
       map (\<lambda>j. (endpoint, Some (dict_set params ''page'' (JInt (int j))))) [page..<Suc k] \<and>
     last (events s') = Stderr (Message ''page_error'' [JInt (int k), JStr (exc_str e)])"
  using good le
proof (induction "k - page" arbitrary: page acc s)
  case 0
  then have pk: "page = k" by simp
  from fetch_page_raises [OF bad exc, of k acc s] obtain s' where
    s': "fetch_page w endpoint (dict_set params ''page'' (JInt (int k))) k acc s = (Break acc, s')"
    "requests_made s' = requests_made s + 1"
    "gets_of (events s') = gets_of (events s) @ [(endpoint, Some (dict_set params ''page'' (JInt (int k))))]"
    "last (events s') = Stderr (Message ''page_error'' [JInt (int k), JStr (exc_str e)])"
    by blast
  have "fetch_pages w endpoint params k acc s = Some (Inr acc, s')"
    by (subst fetch_pages.simps) (simp add: s'(1))
  with s' pk show ?case by simp
next
  case (Suc d)
  then have lt: "page < k" by simp
  let ?ps = "dict_set params ''page'' (JInt (int page))"
  from Suc.prems(1) [of page] lt
  have sp: "serves_page w endpoint ?ps (pg page) True" and ne: "pg page \<noteq> []" by simp_all
  have step: "fetch_pages w endpoint params page acc s =
      fetch_pages w endpoint params (Suc page) (acc @ pg page) (requested endpoint ?ps page s)"
    by (rule fetch_pages_continue [OF sp ne])
  have "d = k - Suc page" using Suc.hyps(2) by simp
  moreover have "\<And>j. Suc page \<le> j \<Longrightarrow> j < k \<Longrightarrow>
      serves_page w endpoint (dict_set params ''page'' (JInt (int j))) (pg j) True \<and> pg j \<noteq> []"
    using Suc.prems(1) by simp
  moreover have "Suc page \<le> k" using lt by simp
  ultimately obtain s' where
    s': "fetch_pages w endpoint params (Suc page) (acc @ pg page) (requested endpoint ?ps page s) =
       Some (Inr ((acc @ pg page) @ concat (map pg [Suc page..<k])), s')"
    "requests_made s' = requests_made (requested endpoint ?ps page s) + (Suc k - Suc page)"
    "gets_of (events s') = gets_of (events (requested endpoint ?ps page s)) @
       map (\<lambda>j. (endpoint, Some (dict_set params ''page'' (JInt (int j))))) [Suc page..<Suc k]"
    "last (events s') = Stderr (Message ''page_error'' [JInt (int k), JStr (exc_str e)])"
    using Suc.hyps(1) [of "Suc page" "acc @ pg page" "requested endpoint ?ps page s"] by blast
  have u1: "[page..<k] = page # [Suc page..<k]" using lt by (simp add: upt_rec)
  have u2: "[page..<Suc k] = page # [Suc page..<Suc k]" using lt by (simp add: upt_rec)
  show ?case
    unfolding step using s' lt by (simp add: u1 u2 del: upt_Suc)
qed

lemma map_of_dict_set: "map_of (dict_set d k v) k' = (if k' = k then Some v else map_of d k')"
  by (induction d) auto

lemma has_next_link_next:
  "has_next \<lparr>gh_status = st, gh_json = j, gh_link = Some link_next\<rparr>"
  by (simp add: has_next_def link_next_def rel_next_def)




text \<open>
  C2. When pages 1 to \<open>k - 1\<close> are served (non-empty, each naming a next page) and the
  request for page \<open>k\<close>, or the decoding of its body, raises an exception \<open>e\<close>, the
  paginated fetch returns exactly the items of pages 1 to \<open>k - 1\<close>, in order. It has
  sent \<open>k\<close> requests, one per page (page \<open>k\<close> is not tried again), and the last thing it
  did was to print the error for page \<open>k\<close> to standard error.
\<close>

theorem fetch_paginated_data_page_failure:
  assumes "\<And>j. 1 \<le> j \<Longrightarrow> j < k \<Longrightarrow>
      serves_page w endpoint (page_params params j) (pg j) True \<and> pg j \<noteq> []"
    and "1 \<le> k"
    and "page_raises w endpoint (page_params params k) e"
    and "is_Exception e"
  shows "\<exists>s'. fetch_paginated_data w endpoint params s =
       Some (Inr (concat (map pg [1..<k])), s') \<and>
     requests_made s' = requests_made s + k \<and>
     gets_of (events s') = gets_of (events s) @
       map (\<lambda>j. (endpoint, Some (page_params params j))) [1..<Suc k] \<and>
     last (events s') = Stderr (Message ''page_error'' [JInt (int k), JStr (exc_str e)])"
proof -
  define params1 where
    "params1 = dict_set (case params of None \<Rightarrow> [] | Some ps \<Rightarrow> ps) ''per_page'' (JInt 100)"
  have pp: "\<And>k. page_params params k = dict_set params1 ''page'' (JInt (int k))"
    by (simp add: page_params_def params1_def)
  have f: "fetch_paginated_data w endpoint params s = fetch_pages w endpoint params1 1 [] s"
    by (simp add: fetch_paginated_data_def params1_def Let_def)
  have "\<exists>s'. fetch_pages w endpoint params1 1 [] s =
       Some (Inr ([] @ concat (map pg [1..<k])), s') \<and>
     requests_made s' = requests_made s + (Suc k - 1) \<and>
     gets_of (events s') = gets_of (events s) @
       map (\<lambda>j. (endpoint, Some (dict_set params1 ''page'' (JInt (int j))))) [1..<Suc k] \<and>
     last (events s') = Stderr (Message ''page_error'' [JInt (int k), JStr (exc_str e)])"
    using assms by (intro fetch_pages_fail) (simp_all add: pp)
  then show ?thesis
    unfolding f by (simp add: pp del: upt_Suc)
qed

theorem fetch_paginated_data_page_failure_witness:
  "\<exists>s'. fetch_paginated_data (gh_env_example\<lparr>session_get := failing_get\<rparr>)
         ''/users/octocat/gists'' None fetcher_example =
       Some (Inr [JStr ''a'', JStr ''b''], s') \<and>
     requests_made s' = 2 \<and>
     last (events s') = Stderr (Message ''page_error'' [JInt 2, JStr ''timed out''])"
proof -
  let ?w = "gh_env_example\<lparr>session_get := failing_get\<rparr>"
  have "\<exists>s'. fetch_paginated_data ?w ''/users/octocat/gists'' None fetcher_example =
       Some (Inr (concat (map (\<lambda>j. [JStr ''a'', JStr ''b'']) [1..<2])), s') \<and>
     requests_made s' = requests_made fetcher_example + 2 \<and>
     gets_of (events s') = gets_of (events fetcher_example) @
       map (\<lambda>j. (''/users/octocat/gists'', Some (page_params None j))) [1..<Suc 2] \<and>
     last (events s') = Stderr (Message ''page_error'' [JInt (int 2), JStr (exc_str (Timeout ''timed out''))])"
  proof (rule fetch_paginated_data_page_failure)
    fix j :: nat assume "1 \<le> j" "j < 2"
    then have "j = 1" by simp
    then show "serves_page ?w ''/users/octocat/gists'' (page_params None j)
        [JStr ''a'', JStr ''b''] True \<and> [JStr ''a'', JStr ''b''] \<noteq> []"
      by (simp add: serves_page_def failing_get_def page_params_def map_of_dict_set
          has_next_link_next)
  next
    show "page_raises ?w ''/users/octocat/gists'' (page_params None 2) (Timeout ''timed out'')"
      by (simp add: page_raises_def session_get_checked_def failing_get_def page_params_def
          map_of_dict_set)
  qed simp_all
  then show ?thesis
    by (auto simp add: fetcher_example_def upt_rec)
qed

section \<open>Properties of the language statistics\<close>


















end
